theory Spec2Isabelle
  imports Complex_Main "HOL-Library.Word"
begin

section \<open>Data model of \<open>sls_arith_base.h\<close>\<close>

text \<open>
  The class \<open>arith_base\<close> is a template over the numeric kernel \<open>num_t\<close>; the header
  instantiates it twice, with the checked 64-bit integer and with \<open>rational\<close> (lines
  417 and 421). A value of either kernel is a rational number here; which of them a
  kernel can hold is said by \<open>representable\<close> below. Every \<open>unsigned\<close> of the header is
  a 32-bit word, with C++'s wrap-around.
\<close>

type_synonym num_t = rat
type_synonym unsigned = "32 word"
type_synonym var_t = "32 word"
type_synonym atom_t = "32 word"
type_synonym bool_var = "32 word"

text \<open>An \<open>expr*\<close> is an AST node owned by the host; it is identified by its node id.\<close>

type_synonym expr = nat

datatype ineq_kind = EQ | LE | LT

text \<open>\<open>enum class var_sort { INT, REAL }\<close>; the suffix keeps clear of HOL's own notation.\<close>

datatype var_sort = INT_sort | REAL_sort

datatype lbool = l_false | l_undef | l_true

text \<open>
  Modelled from the spec: \<open>arith_op_kind\<close> is declared in \<open>arith_decl_plugin.h\<close>, which
  is not among the sources. The header names \<open>OP_MUL\<close>, \<open>OP_ADD\<close> and the marker
  \<open>LAST_ARITH_OP\<close> (no defining operator); the other kinds are the operators for
  which the header declares a repair procedure.
\<close>

datatype arith_op_kind =
    OP_ADD | OP_MUL | OP_MOD | OP_IDIV | OP_DIV | OP_REM | OP_POWER | OP_ABS
  | OP_TO_INT | OP_TO_REAL | LAST_ARITH_OP

record bound =
  is_strict :: bool
  bound_value :: num_t

record linear_term =
  m_args :: "(num_t \<times> var_t) list"
  m_coeff :: num_t

record nonlinear_coeff =
  nl_v :: var_t
  nl_coeff :: num_t
  nl_p :: unsigned

type_synonym monomial_t = "(unsigned \<times> unsigned) list"

text \<open>\<open>struct ineq : public linear_term\<close>: "encode args <= bound, args = bound, args < bound".\<close>

record ineq = linear_term +
  m_nonlinear :: "(var_t \<times> nonlinear_coeff list) list"
  m_monomials :: "monomial_t list"
  m_op :: ineq_kind
  m_args_value :: num_t
  m_is_linear :: bool

text \<open>
  \<open>class var_info\<close>. Its occurrence lists \<open>m_muls\<close>, \<open>m_adds\<close>, \<open>m_ops\<close> and its
  operator tag \<open>m_op\<close> carry the suffix \<open>_of\<close> here, since the engine's tables and the
  atom's comparison kind bear the same names.
\<close>

record var_info =
  m_range :: num_t
  m_num_out_of_range :: unsigned
  m_num_in_range :: unsigned
  m_value :: num_t
  m_best_value :: num_t
  m_expr :: expr
  m_sort :: var_sort
  m_op_of :: arith_op_kind
  m_def_idx :: unsigned
  m_linear_occurs :: "(num_t \<times> bool_var) list"
  m_bool_vars_of :: "bool_var list"
  m_clauses_of :: "unsigned list"
  m_muls_of :: "unsigned list"
  m_adds_of :: "unsigned list"
  m_ops_of :: "unsigned list"
  m_lo :: "bound option"
  m_hi :: "bound option"
  m_finite_domain :: "num_t list"
  m_tabu_pos :: unsigned
  m_tabu_neg :: unsigned
  m_last_pos :: unsigned
  m_last_neg :: unsigned

text \<open>The constructor \<open>var_info(expr* e, var_sort k)\<close> with the member initialisers.\<close>

definition mk_var_info :: "expr \<Rightarrow> var_sort \<Rightarrow> var_info" where
  "mk_var_info e k =
     \<lparr> m_range = 100000000, m_num_out_of_range = 0, m_num_in_range = 0,
       m_value = 0, m_best_value = 0, m_expr = e, m_sort = k,
       m_op_of = LAST_ARITH_OP, m_def_idx = - 1,
       m_linear_occurs = [], m_bool_vars_of = [], m_clauses_of = [],
       m_muls_of = [], m_adds_of = [], m_ops_of = [],
       m_lo = None, m_hi = None, m_finite_domain = [],
       m_tabu_pos = 0, m_tabu_neg = 0, m_last_pos = 0, m_last_neg = 0 \<rparr>"

text \<open>
  The integer and Boolean knobs of \<open>struct config\<close> with their defaults; the
  floating-point knobs (\<open>cb\<close>, \<open>sp\<close>, the \<open>ucb_*\<close> constants) are left out.
\<close>

record config =
  config_initialized :: bool
  cfg_L :: unsigned
  cfg_t :: unsigned
  max_no_improve :: unsigned
  paws_init :: unsigned
  paws_sp :: unsigned
  paws :: bool
  max_moves :: unsigned
  max_moves_base :: unsigned
  wp :: unsigned
  ucb :: bool
  ucb_init :: bool
  restart_base :: unsigned
  restart_next :: unsigned
  restart_init :: unsigned
  use_lookahead :: bool
  use_clausal_lookahead :: bool
  allow_plateau :: bool

definition default_config :: config where
  "default_config =
     \<lparr> config_initialized = False, cfg_L = 20, cfg_t = 45, max_no_improve = 500000,
       paws_init = 40, paws_sp = 52, paws = True, max_moves = 500,
       max_moves_base = 500, wp = 100, ucb = True, ucb_init = False,
       restart_base = 1000, restart_next = 1000, restart_init = 1000,
       use_lookahead = False, use_clausal_lookahead = False, allow_plateau = False \<rparr>"

text \<open>\<open>struct bool_info\<close> (the \<open>double score\<close> is left out).\<close>

record bool_info =
  weight :: unsigned
  touched :: unsigned
  bi_value :: lbool
  fixable_atoms :: "bool_var list"
  fixable_vars :: "var_t list"
  fixable_exprs :: "expr list"

text \<open>The constructor \<open>bool_info(unsigned w)\<close>.\<close>

definition mk_bool_info :: "unsigned \<Rightarrow> bool_info" where
  "mk_bool_info w =
     \<lparr> weight = w, touched = 1, bi_value = l_undef,
       fixable_atoms = [], fixable_vars = [], fixable_exprs = [] \<rparr>"

text \<open>
  The part of the engine's state the operations below read: the configuration, the
  atom table \<open>m_ineqs\<close> (a slot is a null pointer or owns an
  atom) and the variable table.
\<close>

record arith_base =
  m_config :: config
  m_ineqs :: "ineq option list"
  m_vars :: "var_info list"

section \<open>The numeric kernel\<close>

text \<open>
  Modelled from the spec: the two kernels are declared under \<open>util/\<close>, which is not
  among the sources. The spec (sections 1, 2 and 9) has the kernel be an exact rational
  or a bounded integer that supports add, subtract, multiply and compare and signals
  overflow explicitly. The bounded integer holds the integers of the 64-bit two's
  complement range; an operation whose exact result it cannot hold signals overflow
  (\<open>None\<close>) instead of returning.
\<close>

datatype kernel = Checked_int64 | Rational

definition representable :: "kernel \<Rightarrow> num_t \<Rightarrow> bool" where
  "representable k x =
     (case k of
        Rational \<Rightarrow> True
      | Checked_int64 \<Rightarrow> x \<in> \<int> \<and> - (2 ^ 63) \<le> x \<and> x \<le> 2 ^ 63 - 1)"

definition checked :: "kernel \<Rightarrow> num_t \<Rightarrow> num_t option" where
  "checked k x = (if representable k x then Some x else None)"

definition k_add :: "kernel \<Rightarrow> num_t \<Rightarrow> num_t \<Rightarrow> num_t option" where
  "k_add k a b = checked k (a + b)"

definition k_sub :: "kernel \<Rightarrow> num_t \<Rightarrow> num_t \<Rightarrow> num_t option" where
  "k_sub k a b = checked k (a - b)"

definition k_mul :: "kernel \<Rightarrow> num_t \<Rightarrow> num_t \<Rightarrow> num_t option" where
  "k_mul k a b = checked k (a * b)"

definition k_neg :: "kernel \<Rightarrow> num_t \<Rightarrow> num_t option" where
  "k_neg k a = checked k (- a)"

text \<open>
  How a call of a member ends: it returns, or an overflow signalled by the kernel
  leaves it. Either way the object is in the state the call has reached.
\<close>

datatype outcome = Returned | Overflow_signalled

section \<open>Operations of \<open>var_info\<close>\<close>

text \<open>
  \<open>in_range\<close> is a non-const member, so it hands the object back with its answer
  (\<open>None\<close> when the kernel signals overflow in \<open>-m_range\<close>, \<open>m_lo->value + m_range\<close> or
  \<open>m_hi->value - m_range\<close>). The lines between \<open>#if 0\<close> and \<open>#endif\<close>, which would call
  \<open>out_of_range\<close> or count an in-range event, are not compiled: nothing of the object
  is written.
\<close>

definition in_range :: "kernel \<Rightarrow> var_info \<Rightarrow> num_t \<Rightarrow> bool option \<times> var_info" where
  "in_range k vi n =
     (case k_neg k (m_range vi) of
        None \<Rightarrow> (None, vi)
      | Some neg_range \<Rightarrow>
          if neg_range < n \<and> n < m_range vi then (Some True, vi)
          else
            let result =
                  (case m_lo vi of
                     None \<Rightarrow> Some False
                   | Some lo \<Rightarrow>
                       (case k_add k (bound_value lo) (m_range vi) of
                          None \<Rightarrow> None
                        | Some upper \<Rightarrow> Some (n < upper)));
                result =
                  (case result of
                     None \<Rightarrow> None
                   | Some r \<Rightarrow>
                       if \<not> r
                       then (case m_hi vi of
                               None \<Rightarrow> Some r
                             | Some hi \<Rightarrow>
                                 (case k_sub k (bound_value hi) (m_range vi) of
                                    None \<Rightarrow> None
                                  | Some lower \<Rightarrow> Some (n > lower)))
                       else Some r)
            in (result, vi))"

definition is_tabu :: "var_info \<Rightarrow> unsigned \<Rightarrow> num_t \<Rightarrow> bool" where
  "is_tabu vi step delta = ((if delta > 0 then m_tabu_pos vi else m_tabu_neg vi) > step)"

definition set_step :: "var_info \<Rightarrow> unsigned \<Rightarrow> unsigned \<Rightarrow> num_t \<Rightarrow> var_info" where
  "set_step vi step tabu_step delta =
     (if delta > 0 then vi\<lparr>m_tabu_pos := tabu_step, m_last_pos := step\<rparr>
      else vi\<lparr>m_tabu_neg := tabu_step, m_last_neg := step\<rparr>)"

definition last_step :: "var_info \<Rightarrow> num_t \<Rightarrow> unsigned" where
  "last_step vi delta = (if delta > 0 then m_last_pos vi else m_last_neg vi)"

text \<open>
  \<open>out_of_range\<close>. The counter is incremented first; when it has reached the
  threshold, \<open>m_range *= 2\<close> is the kernel's multiplication, and an overflow it signals
  leaves the member before the range is written and the counters are cleared. The line
  for the verbose stream is left out.
\<close>

definition out_of_range :: "kernel \<Rightarrow> var_info \<Rightarrow> outcome \<times> var_info" where
  "out_of_range k vi =
     (let vi1 = vi\<lparr>m_num_out_of_range := m_num_out_of_range vi + 1\<rparr>
      in if m_num_out_of_range vi1 < 1000 * (1 + m_num_in_range vi1) then (Returned, vi1)
         else (case k_mul k (m_range vi1) 2 of
                 None \<Rightarrow> (Overflow_signalled, vi1)
               | Some r \<Rightarrow>
                   (Returned,
                    vi1\<lparr>m_range := r, m_num_out_of_range := 0, m_num_in_range := 0\<rparr>)))"

text \<open>
  A run of \<open>n\<close> calls of \<open>out_of_range\<close> on one variable, one out-of-range event each.
  An overflow that leaves a call ends the run: the calls after it are not made.
\<close>

fun out_of_range_calls :: "kernel \<Rightarrow> nat \<Rightarrow> var_info \<Rightarrow> outcome \<times> var_info" where
  "out_of_range_calls k 0 vi = (Returned, vi)"
| "out_of_range_calls k (Suc n) vi =
     (case out_of_range k vi of
        (Returned, vi') \<Rightarrow> out_of_range_calls k n vi'
      | (Overflow_signalled, vi') \<Rightarrow> (Overflow_signalled, vi'))"

section \<open>Operations of the engine\<close>

text \<open>
  \<open>dec_weight(expr* e)\<close>; the entry \<open>i\<close> is the \<open>bool_info\<close> that \<open>get_bool_info(e)\<close>
  refers to (its body, which finds the entry of \<open>e\<close>, is not in the header).
\<close>

definition dec_weight :: "config \<Rightarrow> bool_info \<Rightarrow> bool_info" where
  "dec_weight cfg i =
     i\<lparr>weight := (if weight i > paws_init cfg then weight i - 1 else paws_init cfg)\<rparr>"

definition inc_weight :: "bool_info \<Rightarrow> bool_info" where
  "inc_weight i = i\<lparr>weight := weight i + 1\<rparr>"

text \<open>
  Modelled from the spec: the accessor \<open>get(idx, default)\<close> of the pointer vector is
  declared under \<open>util/\<close>, which is not among the sources. It is the bounds-checked
  read the call \<open>m_ineqs.get(bv, nullptr)\<close> asks for: the slot when \<open>idx\<close> is inside the
  vector, the given default past its end.
\<close>

definition ptr_vector_get :: "'a option list \<Rightarrow> unsigned \<Rightarrow> 'a option \<Rightarrow> 'a option" where
  "ptr_vector_get xs idx d = (if unat idx < length xs then xs ! unat idx else d)"

definition get_ineq :: "arith_base \<Rightarrow> bool_var \<Rightarrow> ineq option" where
  "get_ineq s bv = ptr_vector_get (m_ineqs s) bv None"

section \<open>Sample inputs\<close>

text \<open>A fresh integer variable, as the constructor leaves it.\<close>

definition fresh_var :: var_info where
  "fresh_var = mk_var_info 0 INT_sort"

text \<open>
  The same variable after 36 doublings of its range, \<open>100000000 * 2 ^ 36\<close>: the first
  range on that path whose double no longer fits 64 bits.
\<close>

definition var_at_limit :: var_info where
  "var_at_limit = fresh_var\<lparr>m_range := 6871947673600000000\<rparr>"

text \<open>The atom \<open>x \<le> 5\<close> over variable 0, with \<open>x = 0\<close> stored.\<close>

definition atom_x_le_5 :: ineq where
  "atom_x_le_5 =
     \<lparr> m_args = [(1, 0)], m_coeff = - 5, m_nonlinear = [], m_monomials = [],
       m_op = LE, m_args_value = 0, m_is_linear = True \<rparr>"

text \<open>An engine with that atom in slot 1 of the atom table, slot 0 empty, and one variable.\<close>

definition sample_engine :: arith_base where
  "sample_engine =
     \<lparr> m_config = default_config, m_ineqs = [None, Some atom_x_le_5],
       m_vars = [fresh_var] \<rparr>"

section \<open>PAWS weights\<close>

lemma dec_weight_ge: "paws_init cfg \<le> weight (dec_weight cfg i)"
  by (simp add: dec_weight_def less_imp_less_eq_dec)

lemma dec_weight_funpow_ge:
  "0 < n \<Longrightarrow> paws_init cfg \<le> weight ((dec_weight cfg ^^ n) i)"
  by (cases n) (simp_all add: dec_weight_ge)

text \<open>
  C9. The PAWS decrement has a floor: \<open>dec_weight\<close> sets the weight to \<open>weight - 1\<close>
  when the weight is strictly above \<open>paws_init\<close> and to \<open>paws_init\<close> otherwise; after
  any positive number of calls the weight is at least \<open>paws_init\<close>, and a weight at or
  below the floor is set to the floor.
\<close>

theorem dec_weight_floor:
  "weight (dec_weight cfg i) =
     (if paws_init cfg < weight i then weight i - 1 else paws_init cfg)
   \<and> (\<forall>n. 0 < n \<longrightarrow> paws_init cfg \<le> weight ((dec_weight cfg ^^ n) i))
   \<and> (weight i \<le> paws_init cfg \<longrightarrow> weight (dec_weight cfg i) = paws_init cfg)"
proof (intro conjI allI impI)
  show "weight (dec_weight cfg i) =
     (if paws_init cfg < weight i then weight i - 1 else paws_init cfg)"
    by (simp add: dec_weight_def)
next
  fix n :: nat assume "0 < n"
  then show "paws_init cfg \<le> weight ((dec_weight cfg ^^ n) i)"
    by (rule dec_weight_funpow_ge)
next
  assume "weight i \<le> paws_init cfg"
  then show "weight (dec_weight cfg i) = paws_init cfg"
    by (simp add: dec_weight_def not_less [symmetric])
qed

theorem dec_weight_floor_witness:
  "weight (dec_weight default_config (mk_bool_info 41)) = 40
   \<and> weight (dec_weight default_config (mk_bool_info 7)) = 40
   \<and> 40 \<le> weight ((dec_weight default_config ^^ 3) (mk_bool_info 41))"
proof -
  have p: "paws_init default_config = 40" by (simp add: default_config_def)
  have a: "weight (mk_bool_info 41) = 41" "weight (mk_bool_info 7) = 7"
    by (simp_all add: mk_bool_info_def)
  have h1: "weight (mk_bool_info 7) \<le> paws_init default_config" by (simp add: p a)
  have h2: "(0::nat) < 3" by simp
  from dec_weight_floor [of default_config "mk_bool_info 7"] h1
  have c1: "weight (dec_weight default_config (mk_bool_info 7)) = paws_init default_config"
    by blast
  from dec_weight_floor [of default_config "mk_bool_info 41"] h2
  have c2: "paws_init default_config
              \<le> weight ((dec_weight default_config ^^ 3) (mk_bool_info 41))"
    by blast
  from dec_weight_floor [of default_config "mk_bool_info 41"]
  have c3: "weight (dec_weight default_config (mk_bool_info 41)) =
     (if paws_init default_config < weight (mk_bool_info 41)
      then weight (mk_bool_info 41) - 1 else paws_init default_config)"
    by blast
  from c1 c2 c3 show ?thesis by (simp add: p a)
qed

section \<open>Atoms without an inequality\<close>

text \<open>
  C10. For a Boolean variable \<open>bv\<close> with no registered inequality (its slot of the atom
  table is null, or \<open>bv\<close> lies past the end of the table) \<open>get_ineq\<close> returns the null
  pointer.
\<close>

theorem get_ineq_unregistered:
  "\<not> (\<exists>i. unat bv < length (m_ineqs s) \<and> m_ineqs s ! unat bv = Some i)
   \<Longrightarrow> get_ineq s bv = None"
  by (cases "m_ineqs s ! unat bv") (auto simp: get_ineq_def ptr_vector_get_def)

theorem get_ineq_unregistered_witness:
  "get_ineq sample_engine 0 = None \<and> get_ineq sample_engine 7 = None"
proof -
  have m: "m_ineqs sample_engine = [None, Some atom_x_le_5]"
    by (simp add: sample_engine_def)
  have h0: "\<not> (\<exists>i. unat (0::32 word) < length (m_ineqs sample_engine)
              \<and> m_ineqs sample_engine ! unat (0::32 word) = Some i)"
    by (simp add: m)
  have h7: "\<not> (\<exists>i. unat (7::32 word) < length (m_ineqs sample_engine)
              \<and> m_ineqs sample_engine ! unat (7::32 word) = Some i)"
    by (simp add: m)
  from get_ineq_unregistered [OF h0] get_ineq_unregistered [OF h7]
  show ?thesis by blast
qed

section \<open>The tracked search range\<close>

text \<open>\<open>in_range\<close> writes nothing of the variable, whatever it answers.\<close>

lemma in_range_keeps: "snd (in_range k vi n) = vi"
  by (simp add: in_range_def Let_def split: option.splits)

lemma representable_Rational: "representable Rational x"
  by (simp add: representable_def)

lemma k_mul_representable: "representable k (a * b) \<Longrightarrow> k_mul k a b = Some (a * b)"
  by (simp add: k_mul_def checked_def)

lemma k_mul_overflow: "\<not> representable k (a * b) \<Longrightarrow> k_mul k a b = None"
  by (simp add: k_mul_def checked_def)

lemma unat_add_of_nat_small:
  "unat (c :: 32 word) + j < 1000 \<Longrightarrow> unat (c + of_nat j) = unat c + j"
  by (simp add: unat_word_ariths unat_of_nat)

text \<open>Below the threshold a call only counts.\<close>

lemma out_of_range_below:
  "m_num_in_range vi = 0 \<Longrightarrow> unat (m_num_out_of_range vi) + 1 < 1000 \<Longrightarrow>
   out_of_range k vi = (Returned, vi\<lparr>m_num_out_of_range := m_num_out_of_range vi + 1\<rparr>)"
  using unat_add_of_nat_small [of "m_num_out_of_range vi" 1]
  by (simp add: out_of_range_def Let_def word_less_nat_alt)

text \<open>
  The call that brings the counter to 1000 doubles the range and clears the counters,
  if the kernel can hold the doubled range.
\<close>

lemma out_of_range_at:
  "m_num_in_range vi = 0 \<Longrightarrow> unat (m_num_out_of_range vi) = 999 \<Longrightarrow>
   representable k (m_range vi * 2) \<Longrightarrow>
   out_of_range k vi =
     (Returned, vi\<lparr>m_range := m_range vi * 2, m_num_out_of_range := 0\<rparr>)"
  using unat_add_of_nat_small [of "m_num_out_of_range vi" 0]
  apply (cases vi)
  apply (simp add: out_of_range_def Let_def word_less_nat_alt unat_word_ariths
      k_mul_representable)
  done

text \<open>If it cannot, that call signals overflow; the counter stays at 1000.\<close>

lemma out_of_range_at_limit:
  "m_num_in_range vi = 0 \<Longrightarrow> unat (m_num_out_of_range vi) = 999 \<Longrightarrow>
   \<not> representable k (m_range vi * 2) \<Longrightarrow>
   out_of_range k vi = (Overflow_signalled, vi\<lparr>m_num_out_of_range := 1000\<rparr>)"
proof -
  assume a: "m_num_in_range vi = 0" "unat (m_num_out_of_range vi) = 999"
    "\<not> representable k (m_range vi * 2)"
  from a(2) have "m_num_out_of_range vi = 999"
    by (simp add: word_eq_iff_unsigned [where ?'a = nat])
  then show ?thesis using a(1,3)
    by (simp add: out_of_range_def Let_def k_mul_overflow)
qed

lemma out_of_range_calls_count:
  "m_num_in_range vi = 0 \<Longrightarrow> unat (m_num_out_of_range vi) + j < 1000 \<Longrightarrow>
   out_of_range_calls k j vi =
     (Returned, vi\<lparr>m_num_out_of_range := m_num_out_of_range vi + of_nat j\<rparr>)"
proof (induction j arbitrary: vi)
  case 0
  then show ?case by simp
next
  case (Suc j)
  let ?w = "vi\<lparr>m_num_out_of_range := m_num_out_of_range vi + 1\<rparr>"
  from Suc.prems have s: "out_of_range k vi = (Returned, ?w)"
    by (intro out_of_range_below) simp_all
  from Suc.prems have u: "unat (m_num_out_of_range ?w) = unat (m_num_out_of_range vi) + 1"
    using unat_add_of_nat_small [of "m_num_out_of_range vi" 1] by simp
  have "out_of_range_calls k j ?w =
          (Returned, ?w\<lparr>m_num_out_of_range := m_num_out_of_range ?w + of_nat j\<rparr>)"
    using Suc.prems u by (intro Suc.IH) simp_all
  then show ?case by (simp add: s add.assoc)
qed

lemma out_of_range_calls_append:
  "out_of_range_calls k (m + n) vi =
     (case out_of_range_calls k m vi of
        (Returned, vi') \<Rightarrow> out_of_range_calls k n vi'
      | (Overflow_signalled, vi') \<Rightarrow> (Overflow_signalled, vi'))"
  by (induction m arbitrary: vi) (auto split: prod.splits outcome.splits)


text \<open>
  With \<open>j\<close> events already counted, the next \<open>999 - j\<close> calls count up to 999, one call
  doubles the range, and the last \<open>j\<close> calls count up to \<open>j\<close> again.
\<close>

lemma out_of_range_calls_1000:
  assumes z: "m_num_in_range vi = 0" and c: "unat (m_num_out_of_range vi) < 1000"
    and r: "representable k (m_range vi * 2)"
  shows "out_of_range_calls k 1000 vi = (Returned, vi\<lparr>m_range := m_range vi * 2\<rparr>)"
proof -
  define j where "j = unat (m_num_out_of_range vi)"
  define w1 where
    "w1 = vi\<lparr>m_num_out_of_range := m_num_out_of_range vi + of_nat (999 - j)\<rparr>"
  define w2 where "w2 = w1\<lparr>m_range := m_range w1 * 2, m_num_out_of_range := 0\<rparr>"
  have split: "(1000::nat) = (999 - j) + Suc j" using c by (simp add: j_def)
  have s1: "out_of_range_calls k (999 - j) vi = (Returned, w1)"
    unfolding w1_def using z c by (intro out_of_range_calls_count) (simp_all add: j_def)
  have u1: "unat (m_num_out_of_range w1) = 999"
    using c by (simp add: w1_def j_def unat_add_of_nat_small)
  have s2: "out_of_range k w1 = (Returned, w2)"
    unfolding w2_def using z u1 r by (intro out_of_range_at) (simp_all add: w1_def)
  have s3: "out_of_range_calls k j w2 =
              (Returned, w2\<lparr>m_num_out_of_range := m_num_out_of_range w2 + of_nat j\<rparr>)"
    using z c by (intro out_of_range_calls_count) (simp_all add: w2_def w1_def j_def)
  have "out_of_range_calls k 1000 vi = out_of_range_calls k (Suc j) w1"
    by (subst split) (simp only: out_of_range_calls_append s1 prod.case outcome.case)
  also have "\<dots> = (Returned, w2\<lparr>m_num_out_of_range := m_num_out_of_range w2 + of_nat j\<rparr>)"
    by (simp add: s2 s3)
  also have "w2\<lparr>m_num_out_of_range := m_num_out_of_range w2 + of_nat j\<rparr>
               = vi\<lparr>m_range := m_range vi * 2\<rparr>"
    by (simp add: w2_def w1_def j_def)
  finally show ?thesis .
qed

lemma out_of_range_calls_1000_limit:
  assumes z: "m_num_in_range vi = 0" and c: "unat (m_num_out_of_range vi) < 1000"
    and r: "\<not> representable k (m_range vi * 2)"
  shows "out_of_range_calls k 1000 vi =
           (Overflow_signalled, vi\<lparr>m_num_out_of_range := 1000\<rparr>)"
proof -
  define j where "j = unat (m_num_out_of_range vi)"
  define w1 where
    "w1 = vi\<lparr>m_num_out_of_range := m_num_out_of_range vi + of_nat (999 - j)\<rparr>"
  have split: "(1000::nat) = (999 - j) + Suc j" using c by (simp add: j_def)
  have s1: "out_of_range_calls k (999 - j) vi = (Returned, w1)"
    unfolding w1_def using z c by (intro out_of_range_calls_count) (simp_all add: j_def)
  have u1: "unat (m_num_out_of_range w1) = 999"
    using c by (simp add: w1_def j_def unat_add_of_nat_small)
  have s2: "out_of_range k w1 = (Overflow_signalled, w1\<lparr>m_num_out_of_range := 1000\<rparr>)"
    using z u1 r by (intro out_of_range_at_limit) (simp_all add: w1_def)
  have "out_of_range_calls k 1000 vi = out_of_range_calls k (Suc j) w1"
    by (subst split) (simp only: out_of_range_calls_append s1 prod.case outcome.case)
  also have "\<dots> = (Overflow_signalled, w1\<lparr>m_num_out_of_range := 1000\<rparr>)"
    by (simp add: s2)
  also have "w1\<lparr>m_num_out_of_range := 1000\<rparr> = vi\<lparr>m_num_out_of_range := 1000\<rparr>"
    by (simp add: w1_def)
  finally show ?thesis .
qed

text \<open>Every further thousand calls doubles the range once more.\<close>

lemma out_of_range_calls_thousands:
  assumes z: "m_num_in_range vi = 0" and c: "unat (m_num_out_of_range vi) < 1000"
    and r: "\<And>i. i < j \<Longrightarrow> representable k (m_range vi * 2 ^ Suc i)"
  shows "out_of_range_calls k (1000 * j) vi = (Returned, vi\<lparr>m_range := m_range vi * 2 ^ j\<rparr>)"
  using r
proof (induction j)
  case 0
  show ?case by simp
next
  case (Suc j)
  let ?w = "vi\<lparr>m_range := m_range vi * 2 ^ j\<rparr>"
  from Suc have ih: "out_of_range_calls k (1000 * j) vi = (Returned, ?w)" by simp
  from Suc.prems [of j] have "representable k (m_range ?w * 2)" by (simp add: mult_ac)
  with z c have "out_of_range_calls k 1000 ?w = (Returned, ?w\<lparr>m_range := m_range ?w * 2\<rparr>)"
    by (intro out_of_range_calls_1000) simp_all
  moreover have "1000 * Suc j = 1000 * j + 1000" by simp
  ultimately show ?case
    by (simp only: out_of_range_calls_append ih prod.case outcome.case) (simp add: mult_ac)
qed

text \<open>
  On the checked kernel the range of a fresh variable can be doubled 36 times:
  \<open>100000000 * 2 ^ 36\<close> fits 64 bits, twice that does not.
\<close>

lemma representable_upto_limit:
  assumes "i < 36"
  shows "representable Checked_int64 (100000000 * 2 ^ Suc i)"
proof -
  define x :: rat where "x = 100000000 * 2 ^ Suc i"
  from assms have "Suc i \<le> 36" by simp
  then have "(2::rat) ^ Suc i \<le> 2 ^ 36" by (intro power_increasing) simp_all
  then have "x \<le> 100000000 * 2 ^ 36" unfolding x_def by (intro mult_left_mono) simp_all
  then have u: "x \<le> 2 ^ 63 - 1" by simp
  have l: "- (2 ^ 63) \<le> x" unfolding x_def
    by (rule order_trans [of _ 0]) simp_all
  have z: "x \<in> \<int>" unfolding x_def by (intro Ints_mult Ints_power) simp_all
  from z l u show ?thesis unfolding x_def [symmetric] by (simp only: representable_def kernel.case)
qed

lemma fresh_var_to_limit:
  "out_of_range_calls Checked_int64 36000 fresh_var = (Returned, var_at_limit)"
proof -
  have mr: "m_range fresh_var = 100000000" by (simp add: fresh_var_def mk_var_info_def)
  have r: "\<And>i. i < 36 \<Longrightarrow> representable Checked_int64 (m_range fresh_var * 2 ^ Suc i)"
    unfolding mr by (rule representable_upto_limit)
  have "out_of_range_calls Checked_int64 (1000 * 36) fresh_var =
          (Returned, fresh_var\<lparr>m_range := m_range fresh_var * 2 ^ 36\<rparr>)"
    using r by (intro out_of_range_calls_thousands) (simp_all add: fresh_var_def mk_var_info_def)
  then show ?thesis by (simp add: var_at_limit_def fresh_var_def mk_var_info_def)
qed

lemma not_representable_past_limit:
  "\<not> representable Checked_int64 (m_range var_at_limit * 2)"
  by (simp add: representable_def var_at_limit_def)

text \<open>
  The hypothesis on the counters holds of every variable: the constructor establishes
  it, and \<open>out_of_range\<close>, the only writer of the two counters, keeps it whenever it
  returns.
\<close>

lemma fresh_var_counters:
  "m_num_in_range (mk_var_info e s) = 0
   \<and> unat (m_num_out_of_range (mk_var_info e s)) < 1000"
  by (simp add: mk_var_info_def)

lemma out_of_range_invariant:
  assumes "m_num_in_range vi = 0" and "unat (m_num_out_of_range vi) < 1000"
    and "out_of_range k vi = (Returned, vi')"
  shows "m_num_in_range vi' = 0 \<and> unat (m_num_out_of_range vi') < 1000"
proof (cases "unat (m_num_out_of_range vi) = 999")
  case True
  show ?thesis
  proof (cases "representable k (m_range vi * 2)")
    case True
    with assms(1) \<open>unat (m_num_out_of_range vi) = 999\<close>
    have "out_of_range k vi =
            (Returned, vi\<lparr>m_range := m_range vi * 2, m_num_out_of_range := 0\<rparr>)"
      by (rule_tac out_of_range_at)
    with assms(1,3) show ?thesis by auto
  next
    case False
    with assms(1) \<open>unat (m_num_out_of_range vi) = 999\<close>
    have "out_of_range k vi = (Overflow_signalled, vi\<lparr>m_num_out_of_range := 1000\<rparr>)"
      by (rule_tac out_of_range_at_limit)
    with assms(3) show ?thesis by simp
  qed
next
  case False
  with assms(2) have b: "unat (m_num_out_of_range vi) + 1 < 1000" by simp
  with assms(1) have "out_of_range k vi =
      (Returned, vi\<lparr>m_num_out_of_range := m_num_out_of_range vi + 1\<rparr>)"
    by (rule out_of_range_below)
  with assms(1,3) b unat_add_of_nat_small [of "m_num_out_of_range vi" 1]
  show ?thesis by auto
qed

text \<open>
  C7, as the header has it. An out-of-range event is a call of \<open>out_of_range\<close>. Take a
  variable with no in-range event counted and fewer than 1000 out-of-range events
  counted. If the kernel can hold the doubled range (the rational kernel always can),
  the next 1000 calls all return, no overflow is signalled, and the range has doubled
  exactly once with nothing else changed. If the kernel cannot hold the doubled range,
  the call that brings the count to 1000 signals overflow to its caller and the range
  stays as it was.
\<close>

theorem out_of_range_calls_double:
  "(m_num_in_range vi = 0 \<and> unat (m_num_out_of_range vi) < 1000
      \<and> representable k (m_range vi * 2)
    \<longrightarrow> out_of_range_calls k 1000 vi = (Returned, vi\<lparr>m_range := m_range vi * 2\<rparr>))
   \<and> (m_num_in_range vi = 0 \<and> unat (m_num_out_of_range vi) < 1000
    \<longrightarrow> out_of_range_calls Rational 1000 vi = (Returned, vi\<lparr>m_range := m_range vi * 2\<rparr>))
   \<and> (m_num_in_range vi = 0 \<and> unat (m_num_out_of_range vi) < 1000
      \<and> \<not> representable k (m_range vi * 2)
    \<longrightarrow> out_of_range_calls k 1000 vi =
          (Overflow_signalled, vi\<lparr>m_num_out_of_range := 1000\<rparr>))"
  by (simp add: out_of_range_calls_1000 out_of_range_calls_1000_limit representable_Rational)

theorem out_of_range_calls_double_witness:
  "out_of_range_calls Checked_int64 1000 fresh_var
     = (Returned, fresh_var\<lparr>m_range := 200000000\<rparr>)
   \<and> out_of_range_calls Rational 1000 var_at_limit
     = (Returned, var_at_limit\<lparr>m_range := 13743895347200000000\<rparr>)
   \<and> out_of_range_calls Checked_int64 1000 var_at_limit
     = (Overflow_signalled, var_at_limit\<lparr>m_num_out_of_range := 1000\<rparr>)"
proof -
  have f: "m_num_in_range fresh_var = 0 \<and> unat (m_num_out_of_range fresh_var) < 1000"
    and mf: "m_range fresh_var = 100000000"
    by (simp_all add: fresh_var_def mk_var_info_def)
  have l: "m_num_in_range var_at_limit = 0 \<and> unat (m_num_out_of_range var_at_limit) < 1000"
    and ml: "m_range var_at_limit = 6871947673600000000"
    by (simp_all add: var_at_limit_def fresh_var_def mk_var_info_def)
  have r: "representable Checked_int64 (m_range fresh_var * 2)"
    by (simp add: mf representable_def)
  from out_of_range_calls_double [of fresh_var Checked_int64] f r
  have c1: "out_of_range_calls Checked_int64 1000 fresh_var
              = (Returned, fresh_var\<lparr>m_range := m_range fresh_var * 2\<rparr>)"
    by blast
  from out_of_range_calls_double [of var_at_limit Checked_int64] l
  have c2: "out_of_range_calls Rational 1000 var_at_limit
              = (Returned, var_at_limit\<lparr>m_range := m_range var_at_limit * 2\<rparr>)"
    by blast
  from out_of_range_calls_double [of var_at_limit Checked_int64] l
    not_representable_past_limit
  have c3: "out_of_range_calls Checked_int64 1000 var_at_limit
              = (Overflow_signalled, var_at_limit\<lparr>m_num_out_of_range := 1000\<rparr>)"
    by blast
  from c1 c2 c3 show ?thesis by (simp add: mf ml)
qed

text \<open>
  On the checked kernel a fresh variable has its range at \<open>100000000 * 2 ^ 36\<close> after
  36000 calls, each of which returned. The next 1000 calls end in an overflow signalled
  out of \<open>out_of_range\<close>, and the range is what it was before them.
\<close>

theorem overflow_at_limit_counterexample:
  "out_of_range_calls Checked_int64 36000 fresh_var = (Returned, var_at_limit)
   \<and> fst (out_of_range_calls Checked_int64 1000 var_at_limit) = Overflow_signalled
   \<and> m_range (snd (out_of_range_calls Checked_int64 1000 var_at_limit))
       = m_range var_at_limit"
proof -
  have "out_of_range_calls Checked_int64 1000 var_at_limit =
          (Overflow_signalled, var_at_limit\<lparr>m_num_out_of_range := 1000\<rparr>)"
    by (rule out_of_range_calls_1000_limit)
       (simp_all add: not_representable_past_limit,
        simp_all add: var_at_limit_def fresh_var_def mk_var_info_def)
  then show ?thesis by (simp add: fresh_var_to_limit)
qed

end
